theory Spec2Isabelle
  imports Complex_Main "HOL-Library.Char_ord" "HOL-Library.List_Lexorder"
begin

section \<open>Python values, exceptions and the library functions the code calls\<close>

text \<open>
  The raw fields of a purchase-requisition item are JSON scalars (serving) or data-frame
  cells (training). \<open>PNone\<close> stands for JSON \<open>null\<close>, Python \<open>None\<close> and a missing
  (NaN) cell alike. Floats are modelled as real numbers, so rounding to binary64, NaN and
  infinity are outside the model. Nested lists and objects as field values are not modelled.
  Strings are ordered by their character codes, as Python orders \<open>str\<close>.
\<close>

datatype pyval = PNone | PBool bool | PInt int | PFloat real | PStr string

datatype exc_kind = ValueError | TypeError | KeyError | ZeroDivisionError | FileNotFoundError

text \<open>An exception is its class and its message, the text that \<open>str(exc)\<close> returns.\<close>

type_synonym pyexc = "exc_kind \<times> string"

type_synonym row = "string \<rightharpoonup> pyval"

text \<open>
  Three library functions are parameters of the model, since their results depend on
  parsing and printing conventions of CPython and pandas that the repository does not
  define: \<open>float(s)\<close> on a string (\<open>None\<close> when it raises ValueError), \<open>str(x)\<close> on a
  float, and \<open>pd.to_datetime(v, errors="coerce")\<close> on a scalar, read as the pair
  (dayofweek, month) of the timestamp, \<open>None\<close> being \<open>NaT\<close>.
\<close>

record pylib =
  float_of_str :: "string \<Rightarrow> real option"
  str_of_float :: "real \<Rightarrow> string"
  to_datetime :: "pyval \<Rightarrow> (int \<times> int) option"

fun py_truthy :: "pyval \<Rightarrow> bool" where
  "py_truthy PNone = False"
| "py_truthy (PBool b) = b"
| "py_truthy (PInt i) = (i \<noteq> 0)"
| "py_truthy (PFloat r) = (r \<noteq> 0)"
| "py_truthy (PStr s) = (s \<noteq> [])"

text \<open>\<open>x or y\<close>\<close>

definition py_or :: "pyval \<Rightarrow> pyval \<Rightarrow> pyval" where
  "py_or x y = (if py_truthy x then x else y)"

text \<open>\<open>d.get(k, default)\<close>\<close>

definition dict_get :: "row \<Rightarrow> string \<Rightarrow> pyval \<Rightarrow> pyval" where
  "dict_get d k dflt = (case d k of None \<Rightarrow> dflt | Some v \<Rightarrow> v)"

fun str_nat :: "nat \<Rightarrow> string" where
  "str_nat n =
     (if n < 10 then [''0123456789'' ! n]
      else str_nat (n div 10) @ [''0123456789'' ! (n mod 10)])"

declare str_nat.simps [simp del]

definition str_int :: "int \<Rightarrow> string" where
  "str_int i = (if i < 0 then ''-'' @ str_nat (nat (- i)) else str_nat (nat i))"

text \<open>\<open>str(x)\<close>\<close>

fun py_str :: "pylib \<Rightarrow> pyval \<Rightarrow> string" where
  "py_str lib PNone = ''None''"
| "py_str lib (PBool b) = (if b then ''True'' else ''False'')"
| "py_str lib (PInt i) = str_int i"
| "py_str lib (PFloat r) = str_of_float lib r"
| "py_str lib (PStr s) = s"

text \<open>\<open>float(x)\<close>; the messages are abbreviated.\<close>

fun py_float :: "pylib \<Rightarrow> pyval \<Rightarrow> pyexc + real" where
  "py_float lib PNone = Inl (TypeError, ''float() argument must be a string or a real number'')"
| "py_float lib (PBool b) = Inr (if b then 1 else 0)"
| "py_float lib (PInt i) = Inr (of_int i)"
| "py_float lib (PFloat r) = Inr r"
| "py_float lib (PStr s) =
     (case float_of_str lib s of
        None \<Rightarrow> Inl (ValueError, ''could not convert string to float: '' @ s)
      | Some r \<Rightarrow> Inr r)"

text \<open>
  \<open>pd.to_datetime(None, errors="coerce")\<close> is \<open>None\<close>, for which \<open>pd.isna\<close> holds, as it
  does for \<open>NaT\<close>.
\<close>

definition pd_to_datetime :: "pylib \<Rightarrow> pyval \<Rightarrow> (int \<times> int) option" where
  "pd_to_datetime lib v = (case v of PNone \<Rightarrow> None | _ \<Rightarrow> to_datetime lib v)"

section \<open>sklearn's LabelEncoder\<close>

text \<open>
  \<open>fit\<close> stores the sorted distinct values as \<open>classes_\<close>; the code of a value is its
  position there. \<open>transform\<close> raises ValueError on a value that is not in \<open>classes_\<close>.
\<close>

definition le_fit :: "string list \<Rightarrow> string list" where
  "le_fit ys = sort (remdups ys)"

fun index_of :: "'a list \<Rightarrow> 'a \<Rightarrow> nat option" where
  "index_of [] v = None"
| "index_of (c # cs) v = (if c = v then Some 0 else map_option Suc (index_of cs v))"

definition le_transform1 :: "string list \<Rightarrow> string \<Rightarrow> pyexc + int" where
  "le_transform1 classes v =
     (case index_of classes v of
        None \<Rightarrow> Inl (ValueError, ''y contains previously unseen labels: '' @ v)
      | Some i \<Rightarrow> Inr (int i))"

fun le_transform :: "string list \<Rightarrow> string list \<Rightarrow> pyexc + int list" where
  "le_transform classes [] = Inr []"
| "le_transform classes (v # vs) =
     (case le_transform1 classes v of
        Inl e \<Rightarrow> Inl e
      | Inr c \<Rightarrow> (case le_transform classes vs of Inl e \<Rightarrow> Inl e | Inr cs \<Rightarrow> Inr (c # cs)))"

definition le_fit_transform :: "string list \<Rightarrow> string list \<times> (pyexc + int list)" where
  "le_fit_transform ys = (let classes = le_fit ys in (classes, le_transform classes ys))"

section \<open>The feature columns (both modules declare the same lists)\<close>

definition CATEGORICAL_FEATURES :: "string list" where
  "CATEGORICAL_FEATURES =
     [''pr_type'', ''company_code'', ''plant'', ''purchasing_group'',
      ''material_group'', ''unit'', ''currency'',
      ''gl_account'', ''cost_center'', ''wbs_element'', ''profit_center'']"

definition NUMERIC_FEATURES :: "string list" where
  "NUMERIC_FEATURES = [''quantity'', ''net_price'', ''day_of_week'', ''month'', ''text_length'']"

definition UNKNOWN :: string where
  "UNKNOWN = ''__UNKNOWN__''"

section \<open>Serving: \<open>_engineer_row\<close>\<close>

text \<open>
  The artefact that training writes and serving loads. \<open>model\<close> is the fitted forest's
  \<open>decision_function\<close> on a one-row frame; it may raise. \<open>encoders\<close> maps a column to the
  \<open>classes_\<close> of its fitted encoder. The training statistics are left out: no code reads
  them back.
\<close>

type_synonym frame_row = "(string \<times> real) list"

record artefact =
  model :: "frame_row \<Rightarrow> pyexc + real"
  encoders :: "string \<rightharpoonup> string list"
  feature_cols :: "string list"
  threshold :: real

text \<open>\<open>str(row.get(col, "__UNKNOWN__") or "__UNKNOWN__")\<close>\<close>

definition categorical_value :: "pylib \<Rightarrow> row \<Rightarrow> string \<Rightarrow> string" where
  "categorical_value lib r col = py_str lib (py_or (dict_get r col (PStr UNKNOWN)) (PStr UNKNOWN))"

text \<open>The transform step: the body of the loop over the categorical columns, for one value.\<close>

definition transform_step :: "string list option \<Rightarrow> string \<Rightarrow> pyexc + int" where
  "transform_step le val =
     (case le of
        Some classes \<Rightarrow> (if val \<in> set classes then le_transform1 classes val else Inr (- 1))
      | None \<Rightarrow> Inr (- 1))"

fun encode_loop ::
  "pylib \<Rightarrow> (string \<rightharpoonup> string list) \<Rightarrow> row \<Rightarrow> string list \<Rightarrow> (string \<rightharpoonup> real)
     \<Rightarrow> pyexc + (string \<rightharpoonup> real)" where
  "encode_loop lib encs r [] record = Inr record"
| "encode_loop lib encs r (col # cols) record =
     (case transform_step (encs col) (categorical_value lib r col) of
        Inl e \<Rightarrow> Inl e
      | Inr c \<Rightarrow> encode_loop lib encs r cols (record(col @ ''_enc'' \<mapsto> of_int c)))"

text \<open>\<open>pd.DataFrame([record])[feature_cols]\<close>: a missing column raises KeyError.\<close>

fun select_columns :: "(string \<rightharpoonup> real) \<Rightarrow> string list \<Rightarrow> pyexc + frame_row" where
  "select_columns record [] = Inr []"
| "select_columns record (c # cs) =
     (case record c of
        None \<Rightarrow> Inl (KeyError, c)
      | Some v \<Rightarrow>
          (case select_columns record cs of Inl e \<Rightarrow> Inl e | Inr vs \<Rightarrow> Inr ((c, v) # vs)))"

definition numeric_value :: "pylib \<Rightarrow> row \<Rightarrow> string \<Rightarrow> pyexc + real" where
  "numeric_value lib r col = py_float lib (py_or (dict_get r col (PInt 0)) (PInt 0))"

definition text_length_value :: "pylib \<Rightarrow> row \<Rightarrow> nat" where
  "text_length_value lib r = length (py_str lib (py_or (dict_get r ''short_text'' (PStr [])) (PStr [])))"

definition engineer_row :: "pylib \<Rightarrow> row \<Rightarrow> artefact \<Rightarrow> pyexc + frame_row" where
  "engineer_row lib r art =
     (case encode_loop lib (encoders art) r CATEGORICAL_FEATURES Map.empty of
        Inl e \<Rightarrow> Inl e
      | Inr rec1 \<Rightarrow>
          let pr_date = pd_to_datetime lib (dict_get r ''pr_date'' PNone);
              rec2 = rec1(''day_of_week'' \<mapsto> (case pr_date of None \<Rightarrow> - 1 | Some (d, m) \<Rightarrow> of_int d));
              rec3 = rec2(''month'' \<mapsto> (case pr_date of None \<Rightarrow> - 1 | Some (d, m) \<Rightarrow> of_int m))
          in (case numeric_value lib r ''quantity'' of
                Inl e \<Rightarrow> Inl e
              | Inr q \<Rightarrow>
                 (case numeric_value lib r ''net_price'' of
                    Inl e \<Rightarrow> Inl e
                  | Inr p \<Rightarrow>
                      let rec4 = rec3(''quantity'' \<mapsto> q);
                          rec5 = rec4(''net_price'' \<mapsto> p);
                          rec6 = rec5(''text_length'' \<mapsto> of_nat (text_length_value lib r))
                      in select_columns rec6 (feature_cols art))))"

section \<open>Serving: \<open>_score_items\<close>\<close>

definition eps :: real where
  "eps = 1 / 10 ^ 9"

text \<open>Python's \<open>/\<close> on floats raises ZeroDivisionError on a zero divisor.\<close>

definition py_truediv :: "real \<Rightarrow> real \<Rightarrow> pyexc + real" where
  "py_truediv a b = (if b = 0 then Inl (ZeroDivisionError, ''float division by zero'') else Inr (a / b))"

definition np_clip :: "real \<Rightarrow> real \<Rightarrow> real \<Rightarrow> real" where
  "np_clip x lo hi = min (max x lo) hi"

text \<open>\<open>round(x, ndigits)\<close> rounds to the nearest multiple of \<open>10 ^ - ndigits\<close>, a tie to the even one.\<close>

definition round_half_even :: "real \<Rightarrow> int" where
  "round_half_even x =
     (let f = \<lfloor>x\<rfloor>; d = x - of_int f
      in if d < 1 / 2 then f else if 1 / 2 < d then f + 1 else if even f then f else f + 1)"

definition py_round :: "real \<Rightarrow> nat \<Rightarrow> real" where
  "py_round x ndigits = of_int (round_half_even (x * 10 ^ ndigits)) / 10 ^ ndigits"

text \<open>\<open>IsolationForest.predict\<close>: -1 where the decision function is negative, 1 elsewhere.\<close>

definition forest_predict :: "(frame_row \<Rightarrow> pyexc + real) \<Rightarrow> frame_row \<Rightarrow> pyexc + int" where
  "forest_predict m X = (case m X of Inl e \<Rightarrow> Inl e | Inr s \<Rightarrow> Inr (if s < 0 then - 1 else 1))"

text \<open>A result dict; \<open>error = None\<close> means that the key is absent.\<close>

record prediction =
  pr_number :: pyval
  item_number :: pyval
  anomaly :: "bool option"
  score :: "real option"
  confidence :: "real option"
  label :: string
  error :: "string option"

text \<open>\<open>float(np.clip((threshold - raw_score) / abs(threshold + 1e-9), 0, 1))\<close>\<close>

definition confidence_value :: "real \<Rightarrow> real \<Rightarrow> pyexc + real" where
  "confidence_value t raw_score =
     (case py_truediv (t - raw_score) \<bar>t + eps\<bar> of
        Inl e \<Rightarrow> Inl e
      | Inr r \<Rightarrow> Inr (np_clip r 0 1))"

text \<open>The \<open>try\<close> block of the loop body, up to the values that the result dict is built from.\<close>

definition try_score :: "pylib \<Rightarrow> artefact \<Rightarrow> row \<Rightarrow> pyexc + (bool \<times> real \<times> real)" where
  "try_score lib art item =
     (case engineer_row lib item art of
        Inl e \<Rightarrow> Inl e
      | Inr X \<Rightarrow>
         (case model art X of
            Inl e \<Rightarrow> Inl e
          | Inr raw_score \<Rightarrow>
             (case forest_predict (model art) X of
                Inl e \<Rightarrow> Inl e
              | Inr prediction \<Rightarrow>
                  let is_anomaly = raw_score < threshold art
                  in (case confidence_value (threshold art) raw_score of
                        Inl e \<Rightarrow> Inl e
                      | Inr conf \<Rightarrow> Inr (is_anomaly, raw_score, conf)))))"

definition score_item :: "pylib \<Rightarrow> artefact \<Rightarrow> row \<Rightarrow> prediction" where
  "score_item lib art item =
     (case try_score lib art item of
        Inr (is_anomaly, raw_score, conf) \<Rightarrow>
          \<lparr>pr_number = dict_get item ''pr_number'' PNone,
           item_number = dict_get item ''item_number'' PNone,
           anomaly = Some is_anomaly,
           score = Some (py_round raw_score 6),
           confidence = Some (py_round conf 4),
           label = (if is_anomaly then ''ANOMALY'' else ''NORMAL''),
           error = None\<rparr>
      | Inl (kind, msg) \<Rightarrow>
          \<lparr>pr_number = dict_get item ''pr_number'' PNone,
           item_number = dict_get item ''item_number'' PNone,
           anomaly = None,
           score = None,
           confidence = None,
           label = ''ERROR'',
           error = Some msg\<rparr>)"

fun score_loop :: "pylib \<Rightarrow> artefact \<Rightarrow> row list \<Rightarrow> prediction list \<Rightarrow> prediction list" where
  "score_loop lib art [] results = results"
| "score_loop lib art (item # items) results =
     score_loop lib art items (results @ [score_item lib art item])"

definition score_items :: "pylib \<Rightarrow> row list \<Rightarrow> artefact \<Rightarrow> prediction list" where
  "score_items lib items art = score_loop lib art items []"

section \<open>Serving: the model singleton and the \<open>predict\<close> handler\<close>

text \<open>
  \<open>loaded\<close> is the module-level \<open>_artefact\<close>; \<open>model_file\<close> is what \<open>joblib.load\<close> reads at
  \<open>MODEL_PATH\<close>, \<open>None\<close> when the file does not exist.
\<close>

record server =
  loaded :: "artefact option"
  model_file :: "artefact option"

definition load_model :: "server \<Rightarrow> (pyexc + artefact) \<times> server" where
  "load_model s =
     (case loaded s of
        None \<Rightarrow>
          (case model_file s of
             None \<Rightarrow> (Inl (FileNotFoundError, ''Model file not found''), s)
           | Some a \<Rightarrow> (Inr a, s\<lparr>loaded := Some a\<rparr>))
      | Some a \<Rightarrow> (Inr a, s))"

text \<open>
  A JSON object as request body: the value under \<open>"items"\<close> when the key is present, a list
  of objects or anything else, and the other fields. \<open>None\<close> as payload is what
  \<open>get_json(force=True, silent=True)\<close> returns for an absent or invalid body.
\<close>

datatype items_value = ItemList "row list" | NotAList pyval

datatype payload = Payload "items_value option" row

datatype body = ErrorBody string "string option" | Predictions "prediction list"

type_synonym response = "body \<times> nat"

definition predict :: "pylib \<Rightarrow> server \<Rightarrow> payload option \<Rightarrow> response \<times> server" where
  "predict lib s request_json =
     (case request_json of
        None \<Rightarrow> ((ErrorBody ''Invalid or missing JSON body'' None, 400), s)
      | Some (Payload its obj) \<Rightarrow>
         (case (case its of
                  Some (ItemList l) \<Rightarrow> Some l
                | Some (NotAList v) \<Rightarrow> None
                | None \<Rightarrow> Some [obj]) of
            None \<Rightarrow> ((ErrorBody (CHR 0x27 # ''items'' @ CHR 0x27 # '' must be a list'') None, 400), s)
          | Some items \<Rightarrow>
              if items = [] then ((ErrorBody ''Empty items list'' None, 400), s)
              else
                (case load_model s of
                   (Inl (kind, msg), s') \<Rightarrow>
                     if kind = FileNotFoundError
                     then ((ErrorBody ''Model not loaded'' (Some msg), 503), s')
                     else ((ErrorBody ''Internal server error'' (Some msg), 500), s')
                 | (Inr art, s') \<Rightarrow> ((Predictions (score_items lib items art), 200), s'))))"

section \<open>Training: \<open>engineer_features\<close> and \<open>train\<close>\<close>

text \<open>
  A data frame is the list of its rows; a cell that is missing (NaN) is \<open>PNone\<close> or absent.
  \<open>load_data\<close> has checked that the required columns exist.
\<close>

type_synonym dataframe = "row list"

definition df_col :: "dataframe \<Rightarrow> string \<Rightarrow> pyval list" where
  "df_col df col = map (\<lambda>r. dict_get r col PNone) df"

definition df_assign :: "dataframe \<Rightarrow> string \<Rightarrow> pyval list \<Rightarrow> dataframe" where
  "df_assign df col vals = map (\<lambda>(r, v). r(col \<mapsto> v)) (zip df vals)"

definition fillna :: "pyval \<Rightarrow> pyval \<Rightarrow> pyval" where
  "fillna dflt v = (case v of PNone \<Rightarrow> dflt | _ \<Rightarrow> v)"

text \<open>\<open>.fillna("").str.len()\<close>: the length of a string, NaN for a cell that is no string.\<close>

definition str_len :: "pyval \<Rightarrow> pyval" where
  "str_len v = (case v of PStr s \<Rightarrow> PInt (int (length s)) | _ \<Rightarrow> PNone)"

text \<open>\<open>df[col].fillna("__UNKNOWN__").astype(str)\<close>\<close>

definition training_value :: "pylib \<Rightarrow> pyval \<Rightarrow> string" where
  "training_value lib v = py_str lib (fillna (PStr UNKNOWN) v)"

fun fit_loop ::
  "pylib \<Rightarrow> string list \<Rightarrow> dataframe \<Rightarrow> (string \<rightharpoonup> string list)
     \<Rightarrow> pyexc + dataframe \<times> (string \<rightharpoonup> string list)" where
  "fit_loop lib [] df encs = Inr (df, encs)"
| "fit_loop lib (col # cols) df encs =
     (let column = map (training_value lib) (df_col df col);
          df1 = df_assign df col (map PStr column)
      in (case le_fit_transform column of
            (classes, Inl e) \<Rightarrow> Inl e
          | (classes, Inr codes) \<Rightarrow>
              fit_loop lib cols (df_assign df1 (col @ ''_enc'') (map PInt codes)) (encs(col \<mapsto> classes))))"

type_synonym training_frame = "string list \<times> pyval list list"

definition engineer_features ::
  "pylib \<Rightarrow> dataframe \<Rightarrow> pyexc + training_frame \<times> (string \<rightharpoonup> string list)" where
  "engineer_features lib df0 =
     (let dates = map (pd_to_datetime lib) (df_col df0 ''pr_date'');
          df1 = df_assign df0 ''day_of_week''
                  (map (\<lambda>t. case t of None \<Rightarrow> PInt (- 1) | Some (d, m) \<Rightarrow> PInt d) dates);
          df2 = df_assign df1 ''month''
                  (map (\<lambda>t. case t of None \<Rightarrow> PInt (- 1) | Some (d, m) \<Rightarrow> PInt m) dates);
          df3 = df_assign df2 ''text_length''
                  (map (\<lambda>v. str_len (fillna (PStr []) v)) (df_col df2 ''short_text''))
      in (case fit_loop lib CATEGORICAL_FEATURES df3 Map.empty of
            Inl e \<Rightarrow> Inl e
          | Inr (df4, encs) \<Rightarrow>
              let feature_cols = map (\<lambda>c. c @ ''_enc'') CATEGORICAL_FEATURES @ NUMERIC_FEATURES
              in Inr ((feature_cols, map (\<lambda>r. map (\<lambda>c. dict_get r c PNone) feature_cols) df4), encs)))"

text \<open>
  \<open>np.percentile(a, q)\<close> with its default method: the sorted values are interpolated
  linearly at the virtual index \<open>(n - 1) * q / 100\<close>. On an empty array numpy returns NaN,
  which the real numbers lack; \<open>train\<close> never gets there, since fitting raises first.
\<close>

definition np_percentile :: "real list \<Rightarrow> real \<Rightarrow> pyexc + real" where
  "np_percentile a q =
     (if q < 0 \<or> 100 < q then Inl (ValueError, ''Percentiles must be in the range [0, 100]'')
      else if a = [] then Inl (ValueError, ''percentile of an empty array'')
      else
        let s = sort a;
            n = length a;
            vi = of_nat (n - 1) * q / 100;
            lo = nat \<lfloor>vi\<rfloor>;
            hi = min (lo + 1) (n - 1);
            g = vi - of_int \<lfloor>vi\<rfloor>
        in Inr (s ! lo + g * (s ! hi - s ! lo)))"

record config =
  contamination :: real
  n_estimators :: nat
  random_state :: int

text \<open>
  The estimator is a parameter: \<open>IsolationForest(...).fit(X)\<close> followed by
  \<open>decision_function(X)\<close> gives the fitted scoring function and the scores of the training
  rows, or raises (as it does on an empty or a non-numeric frame).
\<close>

type_synonym estimator =
  "config \<Rightarrow> training_frame \<Rightarrow> pyexc + (frame_row \<Rightarrow> pyexc + real) \<times> real list"

definition train ::
  "pylib \<Rightarrow> config \<Rightarrow> estimator \<Rightarrow> dataframe \<Rightarrow> pyexc + artefact \<times> (string \<rightharpoonup> string list)" where
  "train lib cfg sk df =
     (case engineer_features lib df of
        Inl e \<Rightarrow> Inl e
      | Inr (X, encs) \<Rightarrow>
          let cols = fst X
          in (case sk cfg X of
                Inl e \<Rightarrow> Inl e
              | Inr (m, scores) \<Rightarrow>
                 (case np_percentile scores (contamination cfg * 100) of
                    Inl e \<Rightarrow> Inl e
                  | Inr t \<Rightarrow>
                      Inr (\<lparr>model = m, encoders = encs, feature_cols = cols, threshold = t\<rparr>, encs))))"

section \<open>Notions that the statements below use\<close>

text \<open>
  The value of the transform step, which never raises (lemma \<open>transform_step_code\<close>): the
  position of the value in \<open>classes_\<close>, and \<open>-1\<close> for a value that is not there or a column
  without encoder.
\<close>

definition step_code :: "string list option \<Rightarrow> string \<Rightarrow> int" where
  "step_code le val =
     (case le of
        None \<Rightarrow> - 1
      | Some classes \<Rightarrow> (case index_of classes val of None \<Rightarrow> - 1 | Some i \<Rightarrow> int i))"

text \<open>The day-of-week (\<open>mon = False\<close>) or month feature that \<open>_engineer_row\<close> derives from \<open>pr_date\<close>.\<close>

definition date_part :: "pylib \<Rightarrow> row \<Rightarrow> bool \<Rightarrow> real" where
  "date_part lib r mon =
     (case pd_to_datetime lib (dict_get r ''pr_date'' PNone) of
        None \<Rightarrow> - 1
      | Some (d, m) \<Rightarrow> of_int (if mon then m else d))"

text \<open>The column order that \<open>engineer_features\<close> builds and \<open>train\<close> stores.\<close>

definition FEATURE_COLS :: "string list" where
  "FEATURE_COLS = map (\<lambda>c. c @ ''_enc'') CATEGORICAL_FEATURES @ NUMERIC_FEATURES"

text \<open>
  The confidence as the specification words it, \<open>clamp((t - s) / (|t| + \<epsilon>), 0, 1)\<close>, to be
  compared with \<open>confidence_value\<close>.
\<close>

definition spec_confidence :: "real \<Rightarrow> real \<Rightarrow> real" where
  "spec_confidence t s = np_clip ((t - s) / (\<bar>t\<bar> + eps)) 0 1"

definition count_below :: "real list \<Rightarrow> real \<Rightarrow> nat" where
  "count_below S t = length (filter (\<lambda>x. x < t) S)"

definition fraction_below :: "real list \<Rightarrow> real \<Rightarrow> real" where
  "fraction_below S t = real (count_below S t) / real (length S)"

text \<open>The entry that \<open>_score_items\<close> appends in its \<open>except\<close> branch.\<close>

definition error_entry :: "row \<Rightarrow> string \<Rightarrow> prediction" where
  "error_entry item msg =
     \<lparr>pr_number = dict_get item ''pr_number'' PNone,
      item_number = dict_get item ''item_number'' PNone,
      anomaly = None, score = None, confidence = None,
      label = ''ERROR'', error = Some msg\<rparr>"

subsection \<open>Concrete inputs for the examples\<close>

text \<open>
  A library instance for the examples. It agrees with CPython and pandas on the inputs
  that the examples use: \<open>float("10")\<close> is 10.0, \<open>float("2.5")\<close> is 2.5, \<open>float("abc")\<close> raises
  ValueError, and 2024-03-15 is a Friday (dayofweek 4) in March.
\<close>

definition example_lib :: pylib where
  "example_lib =
     \<lparr>float_of_str = (\<lambda>s. if s = ''10'' then Some 10 else if s = ''2.5'' then Some (5 / 2) else None),
      str_of_float = (\<lambda>r. ''nan''),
      to_datetime = (\<lambda>v. if v = PStr ''2024-03-15'' then Some (4, 3) else None)\<rparr>"

text \<open>Two training rows whose \<open>plant\<close> cells are the empty string and \<open>"1010"\<close>.\<close>

definition example_df :: dataframe where
  "example_df = [[''plant'' \<mapsto> PStr []], [''plant'' \<mapsto> PStr ''1010'']]"

text \<open>An artefact whose forest scores every row as \<open>-1/10\<close>, with threshold \<open>-1/20\<close>.\<close>

definition example_art :: artefact where
  "example_art =
     \<lparr>model = (\<lambda>X. Inr (- 1 / 10)),
      encoders = [''plant'' \<mapsto> [''1010'', ''2020'']],
      feature_cols = FEATURE_COLS,
      threshold = - 1 / 20\<rparr>"

definition example_item :: row where
  "example_item = [''pr_number'' \<mapsto> PStr ''1000012345'', ''plant'' \<mapsto> PStr ''2020'',
                   ''quantity'' \<mapsto> PStr ''10'', ''pr_date'' \<mapsto> PStr ''2024-03-15'',
                   ''short_text'' \<mapsto> PStr ''paper'']"

definition bad_item :: row where
  "bad_item = [''pr_number'' \<mapsto> PStr ''1000012346'', ''quantity'' \<mapsto> PStr ''abc'']"

text \<open>An item whose numeric fields are the empty string and null.\<close>

definition falsy_item :: row where
  "falsy_item = [''quantity'' \<mapsto> PStr [], ''net_price'' \<mapsto> PNone]"

definition example_server :: server where
  "example_server = \<lparr>loaded = None, model_file = Some example_art\<rparr>"

definition no_model_server :: server where
  "no_model_server = \<lparr>loaded = None, model_file = None\<rparr>"

section \<open>The label encoder and the transform step\<close>

lemma index_of_mem:
  "v \<in> set cs \<Longrightarrow> \<exists>i. index_of cs v = Some i \<and> i < length cs \<and> cs ! i = v"
  by (induction cs) auto

lemma index_of_not_mem: "v \<notin> set cs \<Longrightarrow> index_of cs v = None"
  by (induction cs) auto

lemma le_transform1_mem:
  "v \<in> set cs \<Longrightarrow> \<exists>c. le_transform1 cs v = Inr c \<and> 0 \<le> c \<and> nat c < length cs \<and> cs ! nat c = v"
  using index_of_mem [of v cs] by (auto simp: le_transform1_def)

lemma le_transform_mem:
  "set vs \<subseteq> set cs \<Longrightarrow>
     \<exists>codes. le_transform cs vs = Inr codes \<and> length codes = length vs \<and>
       (\<forall>i<length vs. le_transform1 cs (vs ! i) = Inr (codes ! i))"
proof (induction vs)
  case Nil
  then show ?case by simp
next
  case (Cons v vs)
  then obtain codes where c: "le_transform cs vs = Inr codes" "length codes = length vs"
    "\<forall>i<length vs. le_transform1 cs (vs ! i) = Inr (codes ! i)" by auto
  from Cons.prems obtain c where c1: "le_transform1 cs v = Inr c"
    using le_transform1_mem [of v cs] by auto
  have "\<forall>i<length (v # vs). le_transform1 cs ((v # vs) ! i) = Inr ((c # codes) ! i)"
    using c c1 by (auto simp: nth_Cons split: nat.splits)
  then show ?case using c c1 by simp
qed

lemma set_le_fit: "set (le_fit ys) = set ys"
  by (simp add: le_fit_def)

lemma transform_step_total: "\<exists>c. transform_step le v = Inr c"
  using le_transform1_mem [of v] by (auto simp: transform_step_def split: option.splits)

lemma transform_step_code: "transform_step le v = Inr (step_code le v)"
proof (cases le)
  case None
  then show ?thesis by (simp add: transform_step_def step_code_def)
next
  case (Some classes)
  show ?thesis
  proof (cases "v \<in> set classes")
    case True
    then obtain i where "index_of classes v = Some i" using index_of_mem by fastforce
    then show ?thesis using Some True
      by (simp add: transform_step_def step_code_def le_transform1_def)
  next
    case False
    then show ?thesis using Some index_of_not_mem [of v classes]
      by (simp add: transform_step_def step_code_def)
  qed
qed

text \<open>
  C3. For a fitted encoder, the transform step of \<open>_engineer_row\<close> returns for every value
  seen at fit time the code that \<open>fit_transform\<close> gave it (its position in \<open>classes_\<close>), and
  \<open>-1\<close> for every value that was not seen; for any encoder, fitted or missing, and any value
  it returns an integer and raises nothing.
\<close>

theorem transform_step_fitted_code:
  assumes "le_fit_transform ys = (classes, r)"
  shows "\<exists>codes. r = Inr codes \<and> length codes = length ys \<and>
           (\<forall>i<length ys. transform_step (Some classes) (ys ! i) = Inr (codes ! i) \<and>
                          0 \<le> codes ! i \<and> classes ! nat (codes ! i) = ys ! i) \<and>
           (\<forall>v. v \<notin> set ys \<longrightarrow> transform_step (Some classes) v = Inr (- 1)) \<and>
           (\<forall>le v. \<exists>c. transform_step le v = Inr c)"
proof -
  from assms have cl: "classes = le_fit ys" and r: "r = le_transform classes ys"
    by (auto simp: le_fit_transform_def Let_def)
  have s: "set classes = set ys" using cl set_le_fit by simp
  then obtain codes where c: "le_transform classes ys = Inr codes" "length codes = length ys"
    "\<forall>i<length ys. le_transform1 classes (ys ! i) = Inr (codes ! i)"
    using le_transform_mem [of ys classes] by auto
  have a: "\<forall>i<length ys. transform_step (Some classes) (ys ! i) = Inr (codes ! i) \<and>
                          0 \<le> codes ! i \<and> classes ! nat (codes ! i) = ys ! i"
  proof (intro allI impI)
    fix i assume i: "i < length ys"
    then have m: "ys ! i \<in> set classes" using s by simp
    from le_transform1_mem [OF m] c(3) i
    show "transform_step (Some classes) (ys ! i) = Inr (codes ! i) \<and>
          0 \<le> codes ! i \<and> classes ! nat (codes ! i) = ys ! i"
      using m by (auto simp: transform_step_def)
  qed
  have b: "\<forall>v. v \<notin> set ys \<longrightarrow> transform_step (Some classes) v = Inr (- 1)"
    using s by (simp add: transform_step_def)
  show ?thesis using r c a b transform_step_total by blast
qed

theorem transform_step_fitted_code_witness:
  "le_fit_transform [''b'', ''a'', ''b''] = ([''a'', ''b''], Inr [1, 0, 1]) \<and>
   transform_step (Some [''a'', ''b'']) ''b'' = Inr 1 \<and>
   transform_step (Some [''a'', ''b'']) ''zz'' = Inr (- 1) \<and>
   (\<exists>codes. Inr [1, 0, 1] = (Inr codes :: pyexc + int list) \<and> length codes = length [''b'', ''a'', ''b''])"
proof -
  have h: "le_fit_transform [''b'', ''a'', ''b''] = ([''a'', ''b''], Inr [1, 0, 1])"
    by (simp add: le_fit_transform_def le_fit_def le_transform1_def)
  show ?thesis
    using h transform_step_fitted_code [OF h]
    by (simp add: transform_step_def le_transform1_def)
qed

section \<open>The confidence value\<close>

lemma eps_pos: "0 < eps"
  by (simp add: eps_def)

lemma np_clip_unit: "0 \<le> np_clip x 0 1 \<and> np_clip x 0 1 \<le> 1"
  by (simp add: np_clip_def)

lemma np_clip_zero_iff: "np_clip x 0 1 = 0 \<longleftrightarrow> x \<le> 0"
  by (auto simp: np_clip_def min_def max_def)

lemma confidence_value_defined:
  "t + eps \<noteq> 0 \<Longrightarrow> confidence_value t s = Inr (np_clip ((t - s) / \<bar>t + eps\<bar>) 0 1)"
  by (simp add: confidence_value_def py_truediv_def)

text \<open>
  C2, as stated, fails: the code divides by \<open>|t + \<epsilon>|\<close>, not by \<open>|t| + \<epsilon>\<close>. For the threshold
  \<open>-2e-9\<close> and the score \<open>-3e-9\<close> the code computes the confidence 1, the formula of the
  specification gives 1/3, and the two differ after rounding to four decimals as well.
\<close>

theorem confidence_formula_counterexample:
  "confidence_value (- 2 / 10 ^ 9) (- 3 / 10 ^ 9) = Inr 1 \<and>
   spec_confidence (- 2 / 10 ^ 9) (- 3 / 10 ^ 9) = 1 / 3 \<and>
   py_round 1 4 = 1 \<and> py_round (1 / 3) 4 = 3333 / 10000"
  by (simp add: confidence_value_def py_truediv_def spec_confidence_def eps_def np_clip_def
      py_round_def round_half_even_def Let_def)

text \<open>
  C2, amended. For every threshold \<open>t\<close> with \<open>t + \<epsilon> \<noteq> 0\<close> and every raw score \<open>s\<close>, the
  confidence that \<open>_score_items\<close> computes is \<open>clamp((t - s) / |t + \<epsilon>|, 0, 1)\<close> with
  \<open>\<epsilon> = 1e-9\<close>; it is 0 exactly when \<open>s \<ge> t\<close> (so at \<open>s = t\<close> and for every \<open>s > t\<close>), it lies
  between 0 and 1 whatever the sign of \<open>t\<close>, and for \<open>t \<ge> 0\<close> it is the value
  \<open>clamp((t - s) / (|t| + \<epsilon>), 0, 1)\<close> of the specification.
\<close>

theorem confidence_value_formula:
  assumes "t + eps \<noteq> 0"
  shows "confidence_value t s = Inr (np_clip ((t - s) / \<bar>t + eps\<bar>) 0 1) \<and>
         (confidence_value t s = Inr 0 \<longleftrightarrow> t \<le> s) \<and>
         (\<forall>c. confidence_value t s = Inr c \<longrightarrow> 0 \<le> c \<and> c \<le> 1) \<and>
         (0 \<le> t \<longrightarrow> confidence_value t s = Inr (spec_confidence t s))"
proof -
  let ?c = "np_clip ((t - s) / \<bar>t + eps\<bar>) 0 1"
  have d: "0 < \<bar>t + eps\<bar>" using assms by simp
  have z: "?c = 0 \<longleftrightarrow> t \<le> s"
    using d by (simp add: np_clip_zero_iff divide_le_0_iff)
  have sp: "0 \<le> t \<longrightarrow> ?c = spec_confidence t s"
    using eps_pos by (simp add: spec_confidence_def)
  show ?thesis
    using confidence_value_defined [OF assms] z sp np_clip_unit by simp
qed

theorem confidence_value_formula_witness:
  "(1 / 2 :: real) + eps \<noteq> 0 \<and>
   confidence_value (1 / 2) (1 / 4) = Inr (250000000 / 500000001) \<and>
   confidence_value 0 0 = Inr 0 \<and>
   confidence_value (- 1) 0 = Inr 0"
  using confidence_value_formula [of "1 / 2" "1 / 4"]
    confidence_value_formula [of 0 0] confidence_value_formula [of "- 1" 0]
  by (simp add: eps_def np_clip_def spec_confidence_def)

text \<open>At the threshold \<open>-1e-9\<close> the divisor is zero and the division raises.\<close>

lemma confidence_zero_division:
  "confidence_value (- 1 / 10 ^ 9) 0 = Inl (ZeroDivisionError, ''float division by zero'')"
  by (simp add: confidence_value_def py_truediv_def eps_def)

section \<open>Scoring a batch\<close>

lemma round_half_even_bound: "\<bar>of_int (round_half_even x) - x\<bar> \<le> 1 / 2"
proof -
  have "of_int \<lfloor>x\<rfloor> \<le> x" "x < of_int \<lfloor>x\<rfloor> + 1" by linarith+
  then show ?thesis
    by (auto simp: round_half_even_def Let_def)
qed

lemma py_round_grid: "py_round x n * 10 ^ n = of_int (round_half_even (x * 10 ^ n))"
  by (simp add: py_round_def)

lemma py_round_bound: "\<bar>py_round x n - x\<bar> \<le> 1 / (2 * 10 ^ n)"
proof -
  have "\<bar>of_int (round_half_even (x * 10 ^ n)) - x * 10 ^ n\<bar> \<le> 1 / 2"
    by (rule round_half_even_bound)
  then have "\<bar>py_round x n * 10 ^ n - x * 10 ^ n\<bar> \<le> 1 / 2"
    by (simp add: py_round_grid)
  then have "\<bar>py_round x n - x\<bar> * 10 ^ n \<le> 1 / 2"
    by (simp add: abs_mult flip: left_diff_distrib)
  then show ?thesis
    by (simp add: field_simps)
qed

lemma score_item_ok:
  "try_score lib art item = Inr (a, s, c) \<Longrightarrow>
     score_item lib art item =
       \<lparr>pr_number = dict_get item ''pr_number'' PNone,
        item_number = dict_get item ''item_number'' PNone,
        anomaly = Some a, score = Some (py_round s 6), confidence = Some (py_round c 4),
        label = (if a then ''ANOMALY'' else ''NORMAL''), error = None\<rparr>"
  by (simp add: score_item_def)

lemma score_item_error:
  "try_score lib art item = Inl (k, msg) \<Longrightarrow> score_item lib art item = error_entry item msg"
  by (simp add: score_item_def error_entry_def)

lemma score_item_label_error:
  "label (score_item lib art item) = ''ERROR'' \<longleftrightarrow> (\<exists>e. try_score lib art item = Inl e)"
  by (cases "try_score lib art item") (auto simp: score_item_def split: if_splits)

lemma try_score_ok:
  "engineer_row lib item art = Inr X \<Longrightarrow> model art X = Inr raw \<Longrightarrow>
   confidence_value (threshold art) raw = Inr c \<Longrightarrow>
   try_score lib art item = Inr (raw < threshold art, raw, c)"
  by (simp add: try_score_def forest_predict_def)

lemma try_score_cases:
  "engineer_row lib item art = Inr X \<Longrightarrow> model art X = Inr raw \<Longrightarrow>
   try_score lib art item = Inr v \<Longrightarrow>
   \<exists>c. confidence_value (threshold art) raw = Inr c \<and> v = (raw < threshold art, raw, c)"
  by (auto simp: try_score_def forest_predict_def split: sum.splits)

lemma score_loop_map: "score_loop lib art items results = results @ map (score_item lib art) items"
  by (induction items arbitrary: results) auto

lemma score_items_map: "score_items lib items art = map (score_item lib art) items"
  by (simp add: score_items_def score_loop_map)

lemma FEATURE_COLS_eq:
  "FEATURE_COLS =
     [''pr_type_enc'', ''company_code_enc'', ''plant_enc'', ''purchasing_group_enc'',
      ''material_group_enc'', ''unit_enc'', ''currency_enc'', ''gl_account_enc'',
      ''cost_center_enc'', ''wbs_element_enc'', ''profit_center_enc'',
      ''quantity'', ''net_price'', ''day_of_week'', ''month'', ''text_length'']"
  by (simp add: FEATURE_COLS_def CATEGORICAL_FEATURES_def NUMERIC_FEATURES_def)

lemma encode_loop_code:
  "encode_loop lib encs r (col # cols) record =
     encode_loop lib encs r cols
       (record(col @ ''_enc'' \<mapsto> of_int (step_code (encs col) (categorical_value lib r col))))"
  by (simp add: transform_step_code)

lemma ex_engineer:
  "engineer_row example_lib example_item example_art =
     Inr [(''pr_type_enc'', - 1), (''company_code_enc'', - 1), (''plant_enc'', 1),
          (''purchasing_group_enc'', - 1), (''material_group_enc'', - 1), (''unit_enc'', - 1),
          (''currency_enc'', - 1), (''gl_account_enc'', - 1), (''cost_center_enc'', - 1),
          (''wbs_element_enc'', - 1), (''profit_center_enc'', - 1),
          (''quantity'', 10), (''net_price'', 0), (''day_of_week'', 4), (''month'', 3),
          (''text_length'', 5)]"
  by (simp add: engineer_row_def example_art_def example_item_def example_lib_def FEATURE_COLS_eq
      CATEGORICAL_FEATURES_def encode_loop_code step_code_def categorical_value_def
      dict_get_def py_or_def UNKNOWN_def numeric_value_def text_length_value_def
      pd_to_datetime_def del: encode_loop.simps(2))

lemma ex_model: "model example_art X = Inr (- 1 / 10)" "threshold example_art = - 1 / 20"
  by (simp_all add: example_art_def)

lemma ex_confidence: "confidence_value (- 1 / 20) (- 1 / 10) = Inr 1"
  by (simp add: confidence_value_def py_truediv_def eps_def np_clip_def)

lemma ex_try_score:
  "try_score example_lib example_art example_item = Inr (True, - 1 / 10, 1)"
  using try_score_ok [OF ex_engineer, of "- 1 / 10" 1] ex_confidence
  by (simp add: ex_model)

lemma ex_try_score_bad:
  "try_score example_lib example_art bad_item =
     Inl (ValueError, ''could not convert string to float: abc'')"
  by (simp add: try_score_def engineer_row_def example_art_def bad_item_def example_lib_def
      CATEGORICAL_FEATURES_def encode_loop_code numeric_value_def dict_get_def py_or_def
      del: encode_loop.simps(2))

lemma ex_py_round: "py_round (- 1 / 10) 6 = - 1 / 10" "py_round 1 4 = 1"
proof -
  have "(- 1 / 10) * 10 ^ 6 = (- 100000 :: real)" by simp
  then have h: "round_half_even ((- 1 / 10) * 10 ^ 6) = - 100000"
    by (simp add: round_half_even_def Let_def)
  show "py_round (- 1 / 10) 6 = - 1 / 10"
    unfolding py_round_def h by simp
  show "py_round 1 4 = 1"
    by (simp add: py_round_def round_half_even_def Let_def)
qed

lemma ex_score_item:
  "score_item example_lib example_art example_item =
     \<lparr>pr_number = PStr ''1000012345'', item_number = PNone, anomaly = Some True,
      score = Some (- 1 / 10), confidence = Some 1, label = ''ANOMALY'', error = None\<rparr>"
  unfolding score_item_ok [OF ex_try_score]
  using ex_py_round by (simp add: dict_get_def example_item_def)

text \<open>
  C5. For a record that is scored (its entry is not an ERROR entry), \<open>_score_items\<close> reports
  \<open>anomaly\<close> as true exactly when the raw score is strictly below the stored threshold, the
  label ANOMALY exactly then and NORMAL otherwise, the score rounded to 6 and the confidence
  rounded to 4 decimal places (a multiple of \<open>10^-6\<close>, of \<open>10^-4\<close>, at most half a unit
  away), and no error key; an ERROR entry carries an error string and null for anomaly,
  score and confidence.
\<close>

theorem score_item_fields:
  "(engineer_row lib item art = Inr X \<and> model art X = Inr raw \<and>
      label (score_item lib art item) \<noteq> ''ERROR'' \<longrightarrow>
      anomaly (score_item lib art item) = Some (raw < threshold art) \<and>
      label (score_item lib art item) = (if raw < threshold art then ''ANOMALY'' else ''NORMAL'') \<and>
      score (score_item lib art item) = Some (py_round raw 6) \<and>
      (\<exists>c. confidence_value (threshold art) raw = Inr c \<and>
           confidence (score_item lib art item) = Some (py_round c 4)) \<and>
      error (score_item lib art item) = None) \<and>
   (label (score_item lib art item) = ''ERROR'' \<longrightarrow>
      (\<exists>msg. error (score_item lib art item) = Some msg) \<and>
      anomaly (score_item lib art item) = None \<and> score (score_item lib art item) = None \<and>
      confidence (score_item lib art item) = None) \<and>
   \<bar>py_round x 6 - x\<bar> \<le> 5 / 10 ^ 7 \<and> (\<exists>k::int. py_round x 6 = of_int k / 10 ^ 6) \<and>
   \<bar>py_round y 4 - y\<bar> \<le> 5 / 10 ^ 5 \<and> (\<exists>k::int. py_round y 4 = of_int k / 10 ^ 4)"
proof -
  let ?p = "score_item lib art item"
  have a: "anomaly ?p = Some (raw < threshold art) \<and>
      label ?p = (if raw < threshold art then ''ANOMALY'' else ''NORMAL'') \<and>
      score ?p = Some (py_round raw 6) \<and>
      (\<exists>c. confidence_value (threshold art) raw = Inr c \<and> confidence ?p = Some (py_round c 4)) \<and>
      error ?p = None"
    if h: "engineer_row lib item art = Inr X" "model art X = Inr raw" "label ?p \<noteq> ''ERROR''"
  proof -
    from h(3) obtain v where v: "try_score lib art item = Inr v"
      using score_item_label_error [of lib art item] by (cases "try_score lib art item") auto
    from try_score_cases [OF h(1) h(2) v] obtain c where
      c: "confidence_value (threshold art) raw = Inr c" "v = (raw < threshold art, raw, c)" by auto
    show ?thesis using score_item_ok [of lib art item "raw < threshold art" raw c] v c by simp
  qed
  have b: "(\<exists>msg. error ?p = Some msg) \<and> anomaly ?p = None \<and> score ?p = None \<and> confidence ?p = None"
    if "label ?p = ''ERROR''"
  proof -
    from that obtain k msg where "try_score lib art item = Inl (k, msg)"
      using score_item_label_error [of lib art item] by auto
    then show ?thesis using score_item_error by (simp add: error_entry_def)
  qed
  have r6: "\<bar>py_round x 6 - x\<bar> \<le> 5 / 10 ^ 7" using py_round_bound [of x 6] by simp
  have r4: "\<bar>py_round y 4 - y\<bar> \<le> 5 / 10 ^ 5" using py_round_bound [of y 4] by simp
  have g6: "\<exists>k::int. py_round x 6 = of_int k / 10 ^ 6" unfolding py_round_def by blast
  have g4: "\<exists>k::int. py_round y 4 = of_int k / 10 ^ 4" unfolding py_round_def by blast
  show ?thesis using a b r6 r4 g6 g4 by blast
qed

theorem score_item_fields_witness:
  "engineer_row example_lib example_item example_art =
     Inr [(''pr_type_enc'', - 1), (''company_code_enc'', - 1), (''plant_enc'', 1),
          (''purchasing_group_enc'', - 1), (''material_group_enc'', - 1), (''unit_enc'', - 1),
          (''currency_enc'', - 1), (''gl_account_enc'', - 1), (''cost_center_enc'', - 1),
          (''wbs_element_enc'', - 1), (''profit_center_enc'', - 1),
          (''quantity'', 10), (''net_price'', 0), (''day_of_week'', 4), (''month'', 3),
          (''text_length'', 5)] \<and>
   label (score_item example_lib example_art example_item) \<noteq> ''ERROR'' \<and>
   anomaly (score_item example_lib example_art example_item) = Some (- 1 / 10 < threshold example_art) \<and>
   score (score_item example_lib example_art example_item) = Some (py_round (- 1 / 10) 6) \<and>
   label (score_item example_lib example_art bad_item) = ''ERROR'' \<and>
   error (score_item example_lib example_art bad_item) =
     Some ''could not convert string to float: abc''"
  using score_item_fields [of example_lib example_item example_art
      "[(''pr_type_enc'', - 1), (''company_code_enc'', - 1), (''plant_enc'', 1),
          (''purchasing_group_enc'', - 1), (''material_group_enc'', - 1), (''unit_enc'', - 1),
          (''currency_enc'', - 1), (''gl_account_enc'', - 1), (''cost_center_enc'', - 1),
          (''wbs_element_enc'', - 1), (''profit_center_enc'', - 1),
          (''quantity'', 10), (''net_price'', 0), (''day_of_week'', 4), (''month'', 3),
          (''text_length'', 5)]" "- 1 / 10" 0 0]
    score_item_fields [of example_lib bad_item example_art "[]" 0 0 0]
    ex_engineer ex_score_item score_item_error [OF ex_try_score_bad] ex_py_round
  by (simp add: ex_model error_entry_def)

text \<open>
  C7. \<open>_score_items\<close> returns one entry per input item, in input order, and each entry
  depends on its own item only: scoring a batch is scoring its parts and concatenating.
  When scoring one item raises, that item's entry is the ERROR entry (anomaly, score and
  confidence null, the exception text as error) and the entries of the items before and
  after it are those of the batch without the failing item.
\<close>

theorem score_items_isolation:
  "length (score_items lib items art) = length items \<and>
   (\<forall>i<length items. score_items lib items art ! i = score_item lib art (items ! i)) \<and>
   score_items lib (xs @ ys) art = score_items lib xs art @ score_items lib ys art \<and>
   (try_score lib art bad = Inl (k, msg) \<longrightarrow>
      score_items lib (xs @ bad # ys) art =
        score_items lib xs art @ error_entry bad msg # score_items lib ys art)"
  using score_item_error [of lib art bad k msg] by (simp add: score_items_map)

theorem score_items_isolation_witness:
  "try_score example_lib example_art bad_item =
     Inl (ValueError, ''could not convert string to float: abc'') \<and>
   score_items example_lib ([example_item] @ bad_item # [example_item]) example_art =
     [score_item example_lib example_art example_item,
      error_entry bad_item ''could not convert string to float: abc'',
      score_item example_lib example_art example_item] \<and>
   label (score_item example_lib example_art example_item) = ''ANOMALY'' \<and>
   length (score_items example_lib [example_item, bad_item, example_item] example_art) = 3"
  using score_items_isolation [of example_lib "[example_item, bad_item, example_item]" example_art
      "[]" "[]" bad_item ValueError "''could not convert string to float: abc''"]
    score_items_isolation [of example_lib "[]" example_art "[example_item]" "[example_item]"
      bad_item ValueError "''could not convert string to float: abc''"]
    ex_try_score_bad ex_score_item
  by (simp add: score_items_map)

section \<open>Feature rows and the predict handler\<close>

lemma encode_loop_total: "\<exists>rec'. encode_loop lib encs r cols rec0 = Inr rec'"
  by (induction cols arbitrary: rec0) (simp_all add: transform_step_code)

lemma engineer_row_quantity_error:
  "numeric_value lib r ''quantity'' = Inl e \<Longrightarrow> engineer_row lib r art = Inl e"
  using encode_loop_total [of lib "encoders art" r CATEGORICAL_FEATURES Map.empty]
  by (auto simp: engineer_row_def Let_def)

lemma engineer_row_net_price_error:
  "numeric_value lib r ''quantity'' = Inr q \<Longrightarrow> numeric_value lib r ''net_price'' = Inl e \<Longrightarrow>
   engineer_row lib r art = Inl e"
  using encode_loop_total [of lib "encoders art" r CATEGORICAL_FEATURES Map.empty]
  by (auto simp: engineer_row_def Let_def)

lemma engineer_row_trained:
  assumes "feature_cols art = FEATURE_COLS"
    and "numeric_value lib r ''quantity'' = Inr q"
    and "numeric_value lib r ''net_price'' = Inr p"
  shows "engineer_row lib r art =
     Inr (map (\<lambda>c. (c @ ''_enc'', of_int (step_code (encoders art c) (categorical_value lib r c))))
            CATEGORICAL_FEATURES @
          [(''quantity'', q), (''net_price'', p),
           (''day_of_week'', date_part lib r False), (''month'', date_part lib r True),
           (''text_length'', of_nat (text_length_value lib r))])"
  using assms
  by (simp add: engineer_row_def FEATURE_COLS_eq CATEGORICAL_FEATURES_def encode_loop_code
      date_part_def split: option.splits del: encode_loop.simps(2))

lemma numeric_value_falsy:
  "\<not> py_truthy (dict_get r col (PInt 0)) \<Longrightarrow> numeric_value lib r col = Inr 0"
  by (simp add: numeric_value_def py_or_def)

lemma numeric_value_truthy:
  "py_truthy (dict_get r col (PInt 0)) \<Longrightarrow>
   numeric_value lib r col = py_float lib (dict_get r col (PInt 0))"
  by (simp add: numeric_value_def py_or_def)

lemma numeric_value_error_iff:
  "(\<exists>e. numeric_value lib r col = Inl e) \<longleftrightarrow>
   py_truthy (dict_get r col (PInt 0)) \<and> (\<exists>e. py_float lib (dict_get r col (PInt 0)) = Inl e)"
  by (cases "py_truthy (dict_get r col (PInt 0))")
    (simp_all add: numeric_value_falsy numeric_value_truthy)

lemma py_float_error_is_string:
  "py_truthy v \<Longrightarrow> py_float lib v = Inl e \<Longrightarrow> \<exists>s. v = PStr s \<and> s \<noteq> [] \<and> float_of_str lib s = None"
  by (cases v) (auto split: option.splits)

lemma try_score_trained_iff:
  assumes fc: "feature_cols art = FEATURE_COLS"
    and m: "\<forall>X. \<exists>s. model art X = Inr s"
    and t: "threshold art + eps \<noteq> 0"
  shows "(\<exists>e. try_score lib art item = Inl e) \<longleftrightarrow>
         (\<exists>e. numeric_value lib item ''quantity'' = Inl e) \<or>
         (\<exists>e. numeric_value lib item ''net_price'' = Inl e)"
proof (cases "numeric_value lib item ''quantity''")
  case (Inl e)
  then show ?thesis using engineer_row_quantity_error [of lib item e art]
    by (auto simp: try_score_def)
next
  case q: (Inr q)
  show ?thesis
  proof (cases "numeric_value lib item ''net_price''")
    case (Inl e)
    then show ?thesis using q engineer_row_net_price_error [of lib item q e art]
      by (auto simp: try_score_def)
  next
    case p: (Inr p)
    from engineer_row_trained [OF fc q p] obtain X where X: "engineer_row lib item art = Inr X"
      by blast
    from m obtain s where s: "model art X = Inr s" by blast
    have "try_score lib art item =
            Inr (s < threshold art, s, np_clip ((threshold art - s) / \<bar>threshold art + eps\<bar>) 0 1)"
      using try_score_ok [OF X s confidence_value_defined [OF t]] .
    then show ?thesis using q p by simp
  qed
qed

text \<open>
  C9. For an artefact as training writes it (the stored column order, a forest that scores
  every row, a threshold other than \<open>-1e-9\<close>): a \<open>quantity\<close> or \<open>net_price\<close> that is absent,
  null, the empty string or any other falsy value is encoded as 0.0, and the value that
  \<open>_engineer_row\<close> puts in the frame is the converted field; the item's entry is an ERROR
  entry exactly when one of the two fields is truthy and \<open>float\<close> raises on it, and among
  the modelled scalars such a value is a non-empty string that \<open>float\<close> cannot parse.
\<close>

theorem numeric_fields_default_or_error:
  assumes "feature_cols art = FEATURE_COLS"
    and "\<forall>X. \<exists>s. model art X = Inr s"
    and "threshold art + eps \<noteq> 0"
  shows "(\<not> py_truthy (dict_get item ''quantity'' (PInt 0)) \<longrightarrow>
            numeric_value lib item ''quantity'' = Inr 0) \<and>
         (\<not> py_truthy (dict_get item ''net_price'' (PInt 0)) \<longrightarrow>
            numeric_value lib item ''net_price'' = Inr 0) \<and>
         (\<forall>X. engineer_row lib item art = Inr X \<longrightarrow>
            (\<exists>q p. numeric_value lib item ''quantity'' = Inr q \<and>
                   numeric_value lib item ''net_price'' = Inr p \<and>
                   map_of X ''quantity'' = Some q \<and> map_of X ''net_price'' = Some p)) \<and>
         (label (score_item lib art item) = ''ERROR'' \<longleftrightarrow>
            (py_truthy (dict_get item ''quantity'' (PInt 0)) \<and>
               (\<exists>e. py_float lib (dict_get item ''quantity'' (PInt 0)) = Inl e)) \<or>
            (py_truthy (dict_get item ''net_price'' (PInt 0)) \<and>
               (\<exists>e. py_float lib (dict_get item ''net_price'' (PInt 0)) = Inl e))) \<and>
         (\<forall>v e. py_truthy v \<and> py_float lib v = Inl e \<longrightarrow>
            (\<exists>s. v = PStr s \<and> s \<noteq> [] \<and> float_of_str lib s = None))"
proof -
  have c: "\<exists>q p. numeric_value lib item ''quantity'' = Inr q \<and>
                 numeric_value lib item ''net_price'' = Inr p \<and>
                 map_of X ''quantity'' = Some q \<and> map_of X ''net_price'' = Some p"
    if X: "engineer_row lib item art = Inr X" for X
  proof -
    obtain q where q: "numeric_value lib item ''quantity'' = Inr q"
      using X engineer_row_quantity_error [of lib item _ art]
      by (cases "numeric_value lib item ''quantity''") auto
    obtain p where p: "numeric_value lib item ''net_price'' = Inr p"
      using X q engineer_row_net_price_error [of lib item q _ art]
      by (cases "numeric_value lib item ''net_price''") auto
    have "map_of X ''quantity'' = Some q \<and> map_of X ''net_price'' = Some p"
      using X engineer_row_trained [OF assms(1) q p]
      by (auto simp: CATEGORICAL_FEATURES_def)
    then show ?thesis using q p by simp
  qed
  have d: "label (score_item lib art item) = ''ERROR'' \<longleftrightarrow>
            (py_truthy (dict_get item ''quantity'' (PInt 0)) \<and>
               (\<exists>e. py_float lib (dict_get item ''quantity'' (PInt 0)) = Inl e)) \<or>
            (py_truthy (dict_get item ''net_price'' (PInt 0)) \<and>
               (\<exists>e. py_float lib (dict_get item ''net_price'' (PInt 0)) = Inl e))"
    unfolding score_item_label_error try_score_trained_iff [OF assms] numeric_value_error_iff ..
  show ?thesis
    using c d numeric_value_falsy py_float_error_is_string by blast
qed

theorem numeric_fields_default_or_error_witness:
  "feature_cols example_art = FEATURE_COLS \<and> threshold example_art + eps \<noteq> 0 \<and>
   numeric_value example_lib falsy_item ''quantity'' = Inr 0 \<and>
   numeric_value example_lib falsy_item ''net_price'' = Inr 0 \<and>
   numeric_value example_lib Map.empty ''quantity'' = Inr 0 \<and>
   label (score_item example_lib example_art falsy_item) \<noteq> ''ERROR'' \<and>
   label (score_item example_lib example_art bad_item) = ''ERROR''"
  using numeric_fields_default_or_error [of example_art falsy_item example_lib]
    numeric_fields_default_or_error [of example_art bad_item example_lib]
    numeric_fields_default_or_error [of example_art Map.empty example_lib]
  by (simp add: example_art_def falsy_item_def bad_item_def dict_get_def example_lib_def eps_def)

lemma predict_single:
  "load_model s = (Inr art, s') \<Longrightarrow>
   predict lib s (Some (Payload None obj)) = ((Predictions [score_item lib art obj], 200), s')"
  by (simp add: predict_def score_items_map)

lemma numeric_value_empty: "numeric_value lib Map.empty col = Inr 0"
  by (simp add: numeric_value_def dict_get_def py_or_def)

lemma categorical_value_empty: "categorical_value lib Map.empty col = UNKNOWN"
  by (simp add: categorical_value_def dict_get_def py_or_def UNKNOWN_def)

lemma engineer_row_empty:
  assumes "feature_cols art = FEATURE_COLS"
  shows "engineer_row lib Map.empty art =
     Inr (map (\<lambda>c. (c @ ''_enc'', of_int (step_code (encoders art c) UNKNOWN))) CATEGORICAL_FEATURES @
          [(''quantity'', 0), (''net_price'', 0), (''day_of_week'', - 1), (''month'', - 1),
           (''text_length'', 0)])"
  using engineer_row_trained [OF assms numeric_value_empty numeric_value_empty, of lib]
  by (simp add: categorical_value_empty date_part_def pd_to_datetime_def dict_get_def
      text_length_value_def py_or_def)

text \<open>
  C10. When the model is available, a JSON object without an \<open>"items"\<close> key is scored as the
  batch of that one record: the response is 200 with exactly one prediction, the one of
  the object itself. For the empty object the features are the code of the sentinel string
  \<open>"__UNKNOWN__"\<close> in each categorical column (\<open>-1\<close> when no encoder knows it), 0 for quantity,
  net_price and text_length, and \<open>-1\<close> for day_of_week and month; with a forest that scores
  every row and a threshold other than \<open>-1e-9\<close> its entry is no ERROR entry.
\<close>

theorem single_object_is_one_item_batch:
  assumes "load_model s = (Inr art, s')"
  shows "predict lib s (Some (Payload None obj)) = ((Predictions [score_item lib art obj], 200), s') \<and>
         (feature_cols art = FEATURE_COLS \<longrightarrow>
            engineer_row lib Map.empty art =
              Inr (map (\<lambda>c. (c @ ''_enc'', of_int (step_code (encoders art c) UNKNOWN)))
                     CATEGORICAL_FEATURES @
                   [(''quantity'', 0), (''net_price'', 0), (''day_of_week'', - 1), (''month'', - 1),
                    (''text_length'', 0)])) \<and>
         (feature_cols art = FEATURE_COLS \<and> (\<forall>X. \<exists>sc. model art X = Inr sc) \<and>
          threshold art + eps \<noteq> 0 \<longrightarrow>
            label (score_item lib art Map.empty) \<noteq> ''ERROR'') \<and>
         (\<forall>c. (case encoders art c of None \<Rightarrow> True | Some classes \<Rightarrow> UNKNOWN \<notin> set classes) \<longrightarrow>
            step_code (encoders art c) UNKNOWN = - 1)"
proof -
  have a: "label (score_item lib art Map.empty) \<noteq> ''ERROR''"
    if h: "feature_cols art = FEATURE_COLS" "\<forall>X. \<exists>sc. model art X = Inr sc" "threshold art + eps \<noteq> 0"
    unfolding score_item_label_error try_score_trained_iff [OF h]
    by (simp add: numeric_value_empty)
  have b: "step_code (encoders art c) UNKNOWN = - 1"
    if "case encoders art c of None \<Rightarrow> True | Some classes \<Rightarrow> UNKNOWN \<notin> set classes" for c
    using that index_of_not_mem [of UNKNOWN]
    by (auto simp: step_code_def split: option.splits)
  show ?thesis
    using predict_single [OF assms] engineer_row_empty a b by blast
qed

theorem single_object_is_one_item_batch_witness:
  "load_model example_server = (Inr example_art, example_server\<lparr>loaded := Some example_art\<rparr>) \<and>
   predict example_lib example_server (Some (Payload None Map.empty)) =
     ((Predictions [score_item example_lib example_art Map.empty], 200),
      example_server\<lparr>loaded := Some example_art\<rparr>) \<and>
   engineer_row example_lib Map.empty example_art =
     Inr [(''pr_type_enc'', - 1), (''company_code_enc'', - 1), (''plant_enc'', - 1),
          (''purchasing_group_enc'', - 1), (''material_group_enc'', - 1), (''unit_enc'', - 1),
          (''currency_enc'', - 1), (''gl_account_enc'', - 1), (''cost_center_enc'', - 1),
          (''wbs_element_enc'', - 1), (''profit_center_enc'', - 1),
          (''quantity'', 0), (''net_price'', 0), (''day_of_week'', - 1), (''month'', - 1),
          (''text_length'', 0)] \<and>
   label (score_item example_lib example_art Map.empty) \<noteq> ''ERROR''"
proof -
  have h: "load_model example_server = (Inr example_art, example_server\<lparr>loaded := Some example_art\<rparr>)"
    by (simp add: load_model_def example_server_def)
  have f: "feature_cols example_art = FEATURE_COLS" "encoders example_art = [''plant'' \<mapsto> [''1010'', ''2020'']]"
    by (simp_all add: example_art_def)
  show ?thesis
    using h single_object_is_one_item_batch [OF h, of example_lib Map.empty] f ex_model
    by (simp add: CATEGORICAL_FEATURES_def step_code_def UNKNOWN_def eps_def)
qed

text \<open>
  C8. In every server state, with or without a model file, \<open>predict\<close> answers 400 to a
  missing or invalid JSON body, to an \<open>items\<close> value that is no list and to an empty
  \<open>items\<close> list, and leaves the state as it was: the model is not touched. Only for a
  non-empty batch is the model loaded (the state is then that after \<open>_load_model\<close>); when
  nothing is loaded and the file is absent the answer is 503 "Model not loaded", an error
  body and not a list of predictions, and otherwise 200 with the scored items.
\<close>

theorem predict_rejects_before_model:
  "predict lib s None = ((ErrorBody ''Invalid or missing JSON body'' None, 400), s) \<and>
   predict lib s (Some (Payload (Some (NotAList v)) obj)) =
     ((ErrorBody (CHR 0x27 # ''items'' @ CHR 0x27 # '' must be a list'') None, 400), s) \<and>
   predict lib s (Some (Payload (Some (ItemList [])) obj)) =
     ((ErrorBody ''Empty items list'' None, 400), s) \<and>
   (items \<noteq> [] \<longrightarrow>
      snd (predict lib s (Some (Payload (Some (ItemList items)) obj))) = snd (load_model s) \<and>
      (loaded s = None \<and> model_file s = None \<longrightarrow>
         predict lib s (Some (Payload (Some (ItemList items)) obj)) =
           ((ErrorBody ''Model not loaded'' (Some ''Model file not found''), 503), s)) \<and>
      (\<forall>art s'. load_model s = (Inr art, s') \<longrightarrow>
         predict lib s (Some (Payload (Some (ItemList items)) obj)) =
           ((Predictions (score_items lib items art), 200), s'))) \<and>
   snd (predict lib s (Some (Payload None obj))) = snd (load_model s) \<and>
   (loaded s = None \<and> model_file s = None \<longrightarrow>
      predict lib s (Some (Payload None obj)) =
        ((ErrorBody ''Model not loaded'' (Some ''Model file not found''), 503), s))"
  by (auto simp: predict_def load_model_def split: option.splits sum.splits prod.splits)

theorem predict_rejects_before_model_witness:
  "predict example_lib no_model_server None =
     ((ErrorBody ''Invalid or missing JSON body'' None, 400), no_model_server) \<and>
   predict example_lib no_model_server (Some (Payload (Some (ItemList [])) Map.empty)) =
     ((ErrorBody ''Empty items list'' None, 400), no_model_server) \<and>
   predict example_lib no_model_server (Some (Payload (Some (ItemList [example_item])) Map.empty)) =
     ((ErrorBody ''Model not loaded'' (Some ''Model file not found''), 503), no_model_server) \<and>
   predict example_lib example_server (Some (Payload (Some (ItemList [example_item])) Map.empty)) =
     ((Predictions (score_items example_lib [example_item] example_art), 200),
      example_server\<lparr>loaded := Some example_art\<rparr>)"
  using predict_rejects_before_model [of example_lib no_model_server PNone Map.empty "[example_item]"]
    predict_rejects_before_model [of example_lib example_server PNone Map.empty "[example_item]"]
  by (simp add: no_model_server_def example_server_def load_model_def)

end
